theory Spec2Isabelle
  imports Complex_Main
begin

section \<open>Scores and the failure sentinels\<close>

text \<open>
  A cell of a score row is a number, the float \<open>nan\<close>, a string, or \<^verbatim>\<open>None\<close>. The two
  sentinels of \<^verbatim>\<open>tpot2/objectives.py\<close> are the strings \<^verbatim>\<open>"TIMEOUT"\<close> and
  \<^verbatim>\<open>"INVALID"\<close>. Python floats are taken as reals, with \<open>nan\<close> kept apart.
\<close>

datatype score = Num real | NaN | Str string | PyNone

abbreviation TIMEOUT :: score where
  "TIMEOUT \<equiv> Str ''TIMEOUT''"

abbreviation INVALID :: score where
  "INVALID \<equiv> Str ''INVALID''"

section \<open>\<^verbatim>\<open>process_scores\<close>\<close>

text \<open>
  \<^verbatim>\<open>
  for i in range(len(scores)):
      if len(scores[i]) < n:
          if "TIMEOUT" in scores[i]:
              scores[i] = ["TIMEOUT" for j in range(n)]
          else:
              scores[i] = ["INVALID" for j in range(n)]
  return scores
  \<close>
  The body of the loop, at index \<open>i\<close>, on the matrix as the earlier iterations left it;
  the assignment to \<^verbatim>\<open>scores[i]\<close> is a list update. \<^verbatim>\<open>range(n)\<close> is empty for
  \<open>n \<le> 0\<close>, which \<open>nat n\<close> gives.
\<close>

definition process_scores_body :: "int \<Rightarrow> score list list \<Rightarrow> nat \<Rightarrow> score list list" where
  "process_scores_body n scores i =
     (if int (length (scores ! i)) < n then
        (if TIMEOUT \<in> set (scores ! i)
         then scores[i := replicate (nat n) TIMEOUT]
         else scores[i := replicate (nat n) INVALID])
      else scores)"

definition process_scores :: "score list list \<Rightarrow> int \<Rightarrow> score list list" where
  "process_scores scores n = foldl (process_scores_body n) scores [0..<length scores]"

text \<open>What the loop does to one row, used to describe the result row by row.\<close>

definition repaired_row :: "int \<Rightarrow> score list \<Rightarrow> score list" where
  "repaired_row n row =
     (if int (length row) < n then
        (if TIMEOUT \<in> set row then replicate (nat n) TIMEOUT else replicate (nat n) INVALID)
      else row)"

section \<open>Calls, exceptions and keyword arguments\<close>

text \<open>
  The exceptions the module can meet. \<^verbatim>\<open>except Exception\<close> matches the instances of
  \<^verbatim>\<open>Exception\<close> only: \<^verbatim>\<open>KeyboardInterrupt\<close> and \<^verbatim>\<open>SystemExit\<close> derive from
  \<^verbatim>\<open>BaseException\<close> directly, and so does \<^verbatim>\<open>func_timeout\<close>'s \<^verbatim>\<open>FunctionTimedOut\<close>;
  \<^verbatim>\<open>stopit\<close>'s \<^verbatim>\<open>TimeoutException\<close> is an instance of \<^verbatim>\<open>Exception\<close>.
\<close>

datatype exn =
    FunctionTimedOut
  | KeyboardInterrupt
  | SystemExit
  | TimeoutException
  | TypeError
  | ValueError
  | IndexError
  | UnboundLocalError
  | OtherException string

fun isinstance_Exception :: "exn \<Rightarrow> bool" where
  "isinstance_Exception FunctionTimedOut = False"
| "isinstance_Exception KeyboardInterrupt = False"
| "isinstance_Exception SystemExit = False"
| "isinstance_Exception _ = True"

text \<open>
  An objective function returns a number or a sequence of numbers (or nothing at all,
  \<^verbatim>\<open>None\<close>), or raises; the call takes some time (in seconds). The individual is opaque.
\<close>

datatype retval = Scalar real | Vector "real list" | NoneValue

datatype outcome = Returns retval | Raises exn

datatype run = Run real outcome

text \<open>Keyword arguments (\<^verbatim>\<open>**objective_kwargs\<close>) are a dictionary from names to values.\<close>

datatype kwval = KNone | KNum real | KStr string | KList "kwval list"

type_synonym kwargs = "string \<rightharpoonup> kwval"

type_synonym 'ind objective = "'ind \<Rightarrow> kwargs \<Rightarrow> run"

text \<open>
  Modelled from the spec: \<^verbatim>\<open>func_timeout.func_timeout(timeout, func, args, kwargs)\<close> is a
  library function, not part of the module. It runs the call under a wall-clock budget of
  \<open>timeout\<close> seconds, in a thread of its own: a call that takes longer is abandoned and
  \<^verbatim>\<open>FunctionTimedOut\<close> is raised in the caller; otherwise the call's own result comes
  back, and an instance of \<^verbatim>\<open>Exception\<close> that the call raised is raised again in the
  caller. Any other exception ends the thread and is lost: the library then returns
  \<^verbatim>\<open>None\<close>. A budget that is not a number is a \<^verbatim>\<open>TypeError\<close>.
\<close>

fun func_timeout :: "kwval \<Rightarrow> run \<Rightarrow> exn + retval" where
  "func_timeout (KNum t) (Run d out) =
     (if t < d then Inl FunctionTimedOut
      else (case out of
              Returns v \<Rightarrow> Inr v
            | Raises e \<Rightarrow> if isinstance_Exception e then Inl e else Inr NoneValue))"
| "func_timeout _ _ = Inl TypeError"

text \<open>The plain call \<^verbatim>\<open>objective_function(individual, **objective_kwargs)\<close>.\<close>

fun direct_call :: "run \<Rightarrow> exn + retval" where
  "direct_call (Run d (Returns v)) = Inr v"
| "direct_call (Run d (Raises e)) = Inl e"

section \<open>\<^verbatim>\<open>objective_nan_wrapper\<close>\<close>

text \<open>
  \<^verbatim>\<open>if not isinstance(value, Iterable): value = [value]\<close>: a bare number becomes a row
  of one cell, and so does \<^verbatim>\<open>None\<close>; a sequence is the row.
\<close>

fun as_row :: "retval \<Rightarrow> score list" where
  "as_row (Scalar x) = [Num x]"
| "as_row (Vector xs) = map Num xs"
| "as_row NoneValue = [PyNone]"

text \<open>
  \<^verbatim>\<open>
  try:
      if timeout is None:
          value = objective_function(individual, **objective_kwargs)
      else:
          value = func_timeout.func_timeout(timeout, objective_function, ...)
      if not isinstance(value, Iterable):
          value = [value]
      return value
  except func_timeout.exceptions.FunctionTimedOut:
      return ["TIMEOUT"]
  except Exception as e:
      return ["INVALID"]
  \<close>
  An exception that neither handler matches leaves the function (\<open>Inl\<close>). The captured
  warnings and the text printed under \<^verbatim>\<open>verbose\<close> do not reach the result and are left
  out.
\<close>

definition objective_nan_wrapper ::
  "'ind \<Rightarrow> 'ind objective \<Rightarrow> int \<Rightarrow> kwval \<Rightarrow> kwargs \<Rightarrow> exn + score list" where
  "objective_nan_wrapper individual objective_function verbose timeout objective_kwargs =
     (case (if timeout = KNone
            then direct_call (objective_function individual objective_kwargs)
            else func_timeout timeout (objective_function individual objective_kwargs)) of
        Inr v \<Rightarrow> Inr (as_row v)
      | Inl e \<Rightarrow>
          if e = FunctionTimedOut then Inr [TIMEOUT]
          else if isinstance_Exception e then Inr [INVALID]
          else Inl e)"

text \<open>
  The call \<^verbatim>\<open>objective_nan_wrapper(ind, obj, verbose, **objective_kwargs)\<close>: Python binds
  the key \<^verbatim>\<open>timeout\<close> of the dictionary to the parameter of that name (default
  \<^verbatim>\<open>None\<close>), refuses a key that names a parameter already given by position, and passes
  the other keys on.
\<close>

definition call_objective_nan_wrapper ::
  "'ind \<Rightarrow> 'ind objective \<Rightarrow> int \<Rightarrow> kwargs \<Rightarrow> exn + score list" where
  "call_objective_nan_wrapper ind obj verbose objective_kwargs =
     (if objective_kwargs ''individual'' \<noteq> None
         \<or> objective_kwargs ''objective_function'' \<noteq> None
         \<or> objective_kwargs ''verbose'' \<noteq> None
      then Inl TypeError
      else objective_nan_wrapper ind obj verbose
             (case objective_kwargs ''timeout'' of None \<Rightarrow> KNone | Some t \<Rightarrow> t)
             (objective_kwargs(''timeout'' := None)))"

section \<open>\<^verbatim>\<open>eval_objective_list\<close>\<close>

text \<open>
  A list comprehension of calls that may raise: the first exception, in list order, ends
  it.
\<close>

fun collect :: "(exn + 'a) list \<Rightarrow> exn + 'a list" where
  "collect [] = Inr []"
| "collect (Inl e # rs) = Inl e"
| "collect (Inr v # rs) = (case collect rs of Inl e \<Rightarrow> Inl e | Inr vs \<Rightarrow> Inr (v # vs))"

text \<open>
  \<^verbatim>\<open>np.concatenate\<close> on rows: an empty list of rows is a \<^verbatim>\<open>ValueError\<close>; the result has
  one element type. With a \<^verbatim>\<open>None\<close> among the cells that type is \<^verbatim>\<open>object\<close> and
  the cells stay as they are; otherwise, as soon as one cell is a string every number is
  turned into its string (\<open>fmt\<close> is numpy's rendering of a number, which the module does
  not fix).
\<close>

fun is_Str :: "score \<Rightarrow> bool" where
  "is_Str (Str s) = True"
| "is_Str _ = False"

fun is_None :: "score \<Rightarrow> bool" where
  "is_None PyNone = True"
| "is_None _ = False"

fun astype_str :: "(real \<Rightarrow> string) \<Rightarrow> score \<Rightarrow> score" where
  "astype_str fmt (Num x) = Str (fmt x)"
| "astype_str fmt NaN = Str ''nan''"
| "astype_str fmt (Str s) = Str s"
| "astype_str fmt PyNone = Str ''None''"

definition np_concatenate :: "(real \<Rightarrow> string) \<Rightarrow> score list list \<Rightarrow> exn + score list" where
  "np_concatenate fmt arrays =
     (if arrays = [] then Inl ValueError
      else if list_ex is_None (concat arrays) then Inr (concat arrays)
      else if list_ex is_Str (concat arrays) then Inr (map (astype_str fmt) (concat arrays))
      else Inr (concat arrays))"

text \<open>
  \<^verbatim>\<open>
  scores = np.concatenate([objective_nan_wrapper(ind, obj, verbose, **objective_kwargs)
                           for obj in objective_list])
  return scores
  \<close>
\<close>

definition eval_objective_list ::
  "(real \<Rightarrow> string) \<Rightarrow> 'ind \<Rightarrow> 'ind objective list \<Rightarrow> int \<Rightarrow> kwargs \<Rightarrow> exn + score list" where
  "eval_objective_list fmt ind objective_list verbose objective_kwargs =
     (case collect (map (\<lambda>obj. call_objective_nan_wrapper ind obj verbose objective_kwargs)
                        objective_list) of
        Inl e \<Rightarrow> Inl e
      | Inr rows \<Rightarrow> np_concatenate fmt rows)"

text \<open>
  The call \<^verbatim>\<open>eval_objective_list(ind, objective_list, verbose, **kwargs)\<close>, as the two
  dispatchers make it: a key \<^verbatim>\<open>ind\<close> in the dictionary names the parameter already
  given by position (\<^verbatim>\<open>TypeError\<close>). The other parameter names, \<^verbatim>\<open>objective_list\<close> and
  \<^verbatim>\<open>verbose\<close>, are parameters of the dispatchers too and never in their
  \<^verbatim>\<open>**objective_kwargs\<close>.
\<close>

definition call_eval_objective_list ::
  "(real \<Rightarrow> string) \<Rightarrow> 'ind \<Rightarrow> 'ind objective list \<Rightarrow> int \<Rightarrow> kwargs \<Rightarrow> exn + score list" where
  "call_eval_objective_list fmt ind objective_list verbose kwargs =
     (if kwargs ''ind'' \<noteq> None then Inl TypeError
      else eval_objective_list fmt ind objective_list verbose kwargs)"

section \<open>\<^verbatim>\<open>parallel_eval_objective_list\<close>\<close>

text \<open>
  Modelled from the spec: \<^verbatim>\<open>dask.delayed\<close> and \<^verbatim>\<open>dask.compute\<close> are library
  functions, not part of the module.

  \<^verbatim>\<open>dask.delayed(f)(*args, **kwargs)\<close> makes one task, the call of \<^verbatim>\<open>f\<close>, and runs
  nothing. It takes the keywords \<^verbatim>\<open>dask_key_name\<close> and \<^verbatim>\<open>pure\<close> for itself and passes
  the others to \<^verbatim>\<open>f\<close>. The task is named by \<^verbatim>\<open>dask_key_name\<close> when that is given and
  not \<^verbatim>\<open>None\<close>, and gets a name of its own otherwise (\<open>Fresh i\<close> for the \<open>i\<close>-th call;
  with \<^verbatim>\<open>pure\<close> set, equal calls share a name, which changes no result since equal
  calls give equal results here). A list cannot be a name (\<^verbatim>\<open>TypeError\<close>).
\<close>

datatype dask_key = Fresh nat | Named kwval

fun unhashable :: "kwval option \<Rightarrow> bool" where
  "unhashable (Some (KList l)) = True"
| "unhashable _ = False"

definition delayed_name :: "kwargs \<Rightarrow> nat \<Rightarrow> dask_key" where
  "delayed_name kwargs i =
     (case kwargs ''dask_key_name'' of
        None \<Rightarrow> Fresh i
      | Some v \<Rightarrow> if v = KNone then Fresh i else Named v)"

definition delayed_kwargs :: "kwargs \<Rightarrow> kwargs" where
  "delayed_kwargs kwargs = kwargs(''dask_key_name'' := None, ''pure'' := None)"

definition dask_delayed ::
  "(kwargs \<Rightarrow> exn + 'a) \<Rightarrow> nat \<Rightarrow> kwargs \<Rightarrow> exn + dask_key \<times> (exn + 'a)" where
  "dask_delayed f i kwargs =
     (if unhashable (kwargs ''dask_key_name'') then Inl TypeError
      else Inr (delayed_name kwargs i, f (delayed_kwargs kwargs)))"

text \<open>
  \<^verbatim>\<open>dask.compute(*delayed_values, num_workers=n_jobs)\<close>: delayed values of the same name
  are one task, the first of them. The tasks are independent; on a pool of \<open>num_workers\<close>
  workers they complete in some order, \<open>schedule num_workers\<close> (the positions of the
  tasks as they finish). Each result is kept under the position of its task and the
  results come back by position. A task that raises makes \<^verbatim>\<open>compute\<close> raise.
\<close>

definition merge_tasks :: "(dask_key \<times> 't) list \<Rightarrow> 't list" where
  "merge_tasks delayed_values =
     map (\<lambda>(k, t). case map_of delayed_values k of Some t' \<Rightarrow> t' | None \<Rightarrow> t) delayed_values"

fun dask_run :: "nat list \<Rightarrow> (exn + 'a) list \<Rightarrow> 'a option list \<Rightarrow> exn + 'a option list" where
  "dask_run [] tasks slots = Inr slots"
| "dask_run (i # rest) tasks slots =
     (if i < length tasks then
        (case tasks ! i of
           Inl e \<Rightarrow> Inl e
         | Inr v \<Rightarrow> dask_run rest tasks (slots[i := Some v]))
      else dask_run rest tasks slots)"

definition dask_compute ::
  "nat \<Rightarrow> (nat \<Rightarrow> nat list) \<Rightarrow> (dask_key \<times> (exn + 'a)) list \<Rightarrow> exn + 'a list" where
  "dask_compute num_workers schedule delayed_values =
     (let tasks = merge_tasks delayed_values
      in case dask_run (schedule num_workers) tasks (replicate (length tasks) None) of
           Inl e \<Rightarrow> Inl e
         | Inr slots \<Rightarrow> Inr (List.map_filter id slots))"

text \<open>
  \<^verbatim>\<open>
  delayed_values = [dask.delayed(eval_objective_list)(ind, objective_list, verbose,
                        timeout=timeout, **objective_kwargs) for ind in individual_list]
  offspring_scores = list(dask.compute(*delayed_values, num_workers=n_jobs,
                                       threads_per_worker=1))
  if n_expected_columns is not None:
      offspring_scores = process_scores(offspring_scores, n_expected_columns)
  return offspring_scores
  \<close>
  The progress bar is left out.
\<close>

definition parallel_eval_objective_list ::
  "(real \<Rightarrow> string) \<Rightarrow> (nat \<Rightarrow> nat list) \<Rightarrow> 'ind list \<Rightarrow> 'ind objective list \<Rightarrow> nat \<Rightarrow> int \<Rightarrow>
   kwval \<Rightarrow> int option \<Rightarrow> kwargs \<Rightarrow> exn + score list list" where
  "parallel_eval_objective_list fmt schedule individual_list objective_list n_jobs verbose
     timeout n_expected_columns objective_kwargs =
     (case collect
             (map (\<lambda>(i, ind).
                     dask_delayed (call_eval_objective_list fmt ind objective_list verbose) i
                       (objective_kwargs(''timeout'' \<mapsto> timeout)))
                  (enumerate 0 individual_list)) of
        Inl e \<Rightarrow> Inl e
      | Inr delayed_values \<Rightarrow>
          (case dask_compute n_jobs schedule delayed_values of
             Inl e \<Rightarrow> Inl e
           | Inr offspring_scores \<Rightarrow>
               (case n_expected_columns of
                  None \<Rightarrow> Inr offspring_scores
                | Some n \<Rightarrow> Inr (process_scores offspring_scores n))))"

section \<open>\<^verbatim>\<open>eval_objective_list_by_steps\<close>\<close>

text \<open>
  The value of the local \<^verbatim>\<open>final_scores\<close> is a single cell or an array of cells.
\<close>

datatype pyvalue = Item score | Array "score list"

text \<open>
  \<^verbatim>\<open>scores.mean(axis=0)\<close> on the one-dimensional \<^verbatim>\<open>scores\<close>: the mean of its cells, one
  number. An array with a string or a \<^verbatim>\<open>None\<close> has no mean (\<^verbatim>\<open>TypeError\<close>); the
  mean of no cell, or of cells with a \<open>nan\<close>, is \<open>nan\<close>.
\<close>

fun num_of :: "score \<Rightarrow> real" where
  "num_of (Num x) = x"
| "num_of _ = 0"

definition np_mean :: "score list \<Rightarrow> exn + score" where
  "np_mean xs =
     (if list_ex is_Str xs \<or> list_ex is_None xs then Inl TypeError
      else if xs = [] \<or> NaN \<in> set xs then Inr NaN
      else Inr (Num (sum_list (map num_of xs) / real (length xs))))"

text \<open>\<^verbatim>\<open>scores[-1]\<close>: the last cell, an \<^verbatim>\<open>IndexError\<close> on an empty array.\<close>

definition last_cell :: "score list \<Rightarrow> exn + score" where
  "last_cell xs = (if xs = [] then Inl IndexError else Inr (last xs))"

text \<open>
  \<^verbatim>\<open>
  if final_score_strategy == 'mean':
      final_scores  = scores.mean(axis=0)
  elif final_score_strategy == 'last':
      final_scores = scores[-1]
  \<close>
  With any other strategy \<^verbatim>\<open>final_scores\<close> keeps what it had (\<open>None\<close>: not yet assigned).
\<close>

definition reduce_scores :: "string \<Rightarrow> score list \<Rightarrow> pyvalue option \<Rightarrow> exn + pyvalue option" where
  "reduce_scores final_score_strategy scores final_scores =
     (if final_score_strategy = ''mean'' then
        (case np_mean scores of Inl e \<Rightarrow> Inl e | Inr m \<Rightarrow> Inr (Some (Item m)))
      else if final_score_strategy = ''last'' then
        (case last_cell scores of Inl e \<Rightarrow> Inl e | Inr c \<Rightarrow> Inr (Some (Item c)))
      else Inr final_scores)"

text \<open>
  \<^verbatim>\<open>all([s*w>t*w for s,t,w in zip(final_scores, threshold, objective_function_signs)])\<close>.
  \<^verbatim>\<open>zip\<close> iterates over its first argument: an array gives its cells, a string its
  characters, and a number or \<^verbatim>\<open>None\<close> cannot be iterated (\<^verbatim>\<open>TypeError\<close>). A string
  cell cannot be compared with a number, \<^verbatim>\<open>None\<close> cannot be multiplied
  (\<^verbatim>\<open>TypeError\<close>); a comparison with \<open>nan\<close> is false.
\<close>

fun iter_cells :: "pyvalue \<Rightarrow> exn + score list" where
  "iter_cells (Array xs) = Inr xs"
| "iter_cells (Item (Str s)) = Inr (map (\<lambda>c. Str [c]) s)"
| "iter_cells (Item _) = Inl TypeError"

fun exceeds :: "score \<Rightarrow> real \<Rightarrow> real \<Rightarrow> exn + bool" where
  "exceeds (Num s) t w = Inr (s * w > t * w)"
| "exceeds NaN t w = Inr False"
| "exceeds (Str s) t w = Inl TypeError"
| "exceeds PyNone t w = Inl TypeError"

definition all_exceed :: "pyvalue \<Rightarrow> real list \<Rightarrow> real list \<Rightarrow> exn + bool" where
  "all_exceed final_scores threshold objective_function_signs =
     (case iter_cells final_scores of
        Inl e \<Rightarrow> Inl e
      | Inr cells \<Rightarrow>
          (case collect (map (\<lambda>(s, t, w). exceeds s t w)
                             (zip cells (zip threshold objective_function_signs))) of
             Inl e \<Rightarrow> Inl e
           | Inr bs \<Rightarrow> Inr (list_all id bs)))"

text \<open>
  \<^verbatim>\<open>
  threshold = thresholds[step]
  if all([...]):
      return scores, final_scores
  \<close>
  \<^verbatim>\<open>thresholds[step]\<close> is an \<^verbatim>\<open>IndexError\<close> past the end; reading \<^verbatim>\<open>final_scores\<close>
  before any assignment is an \<^verbatim>\<open>UnboundLocalError\<close>.
\<close>

definition early_stop :: "real list list \<Rightarrow> nat \<Rightarrow> pyvalue option \<Rightarrow> real list \<Rightarrow> exn + bool" where
  "early_stop thresholds step final_scores objective_function_signs =
     (if length thresholds \<le> step then Inl IndexError
      else (case final_scores of
              None \<Rightarrow> Inl UnboundLocalError
            | Some f \<Rightarrow> all_exceed f (thresholds ! step) objective_function_signs))"

text \<open>
  The score vector of one step:
  \<^verbatim>\<open>np.concatenate([objective_nan_wrapper(ind, obj, verbose, step=step, **objective_kwargs)
                    for obj in objective_list])\<close>.
  A key \<^verbatim>\<open>step\<close> in \<^verbatim>\<open>objective_kwargs\<close> clashes with the keyword
  (\<^verbatim>\<open>TypeError\<close>).
\<close>

definition eval_step ::
  "(real \<Rightarrow> string) \<Rightarrow> 'ind \<Rightarrow> 'ind objective list \<Rightarrow> int \<Rightarrow> nat \<Rightarrow> kwargs \<Rightarrow> exn + score list" where
  "eval_step fmt ind objective_list verbose step objective_kwargs =
     (case collect (map (\<lambda>obj.
                      if objective_kwargs ''step'' \<noteq> None then Inl TypeError
                      else call_objective_nan_wrapper ind obj verbose
                             (objective_kwargs(''step'' \<mapsto> KNum (real step))))
                    objective_list) of
        Inl e \<Rightarrow> Inl e
      | Inr rows \<Rightarrow> np_concatenate fmt rows)"

text \<open>
  The loop \<^verbatim>\<open>for step in range(n_steps)\<close> over the steps still to run, with the locals
  \<^verbatim>\<open>all_scores\<close>, \<^verbatim>\<open>scores\<close> and \<^verbatim>\<open>final_scores\<close> (\<open>None\<close>: not yet assigned); after
  the loop, \<^verbatim>\<open>return scores, final_scores\<close>.
\<close>

fun steps_loop ::
  "(real \<Rightarrow> string) \<Rightarrow> 'ind \<Rightarrow> 'ind objective list \<Rightarrow> real list \<Rightarrow> string \<Rightarrow>
   real list list option \<Rightarrow> int \<Rightarrow> kwargs \<Rightarrow> nat list \<Rightarrow>
   score list list \<Rightarrow> score list option \<Rightarrow> pyvalue option \<Rightarrow> exn + score list \<times> pyvalue" where
  "steps_loop fmt ind objective_list signs strategy thresholds verbose kw []
     all_scores scores final_scores =
     (case scores of
        None \<Rightarrow> Inl UnboundLocalError
      | Some s \<Rightarrow> (case final_scores of None \<Rightarrow> Inl UnboundLocalError | Some f \<Rightarrow> Inr (s, f)))"
| "steps_loop fmt ind objective_list signs strategy thresholds verbose kw (step # rest)
     all_scores scores final_scores =
     (case eval_step fmt ind objective_list verbose step kw of
        Inl e \<Rightarrow> Inl e
      | Inr scores' \<Rightarrow>
          (case reduce_scores strategy scores' final_scores of
             Inl e \<Rightarrow> Inl e
           | Inr final_scores' \<Rightarrow>
               (case thresholds of
                  None \<Rightarrow>
                    steps_loop fmt ind objective_list signs strategy thresholds verbose kw rest
                      (all_scores @ [scores']) (Some scores') final_scores'
                | Some ths \<Rightarrow>
                    (case early_stop ths step final_scores' signs of
                       Inl e \<Rightarrow> Inl e
                     | Inr stop \<Rightarrow>
                         if stop then
                           (case final_scores' of
                              None \<Rightarrow> Inl UnboundLocalError
                            | Some f \<Rightarrow> Inr (scores', f))
                         else
                           steps_loop fmt ind objective_list signs strategy thresholds verbose kw
                             rest (all_scores @ [scores']) (Some scores') final_scores'))))"

text \<open>
  \<^verbatim>\<open>objective_function_signs = np.sign(objective_function_weights)\<close>, then the loop from
  \<^verbatim>\<open>all_scores = []\<close>. \<^verbatim>\<open>range(n_steps)\<close> is empty for \<open>n_steps \<le> 0\<close>.
\<close>

definition eval_objective_list_by_steps ::
  "(real \<Rightarrow> string) \<Rightarrow> 'ind \<Rightarrow> 'ind objective list \<Rightarrow> int \<Rightarrow> real list \<Rightarrow> string \<Rightarrow>
   real list list option \<Rightarrow> int \<Rightarrow> kwargs \<Rightarrow> exn + score list \<times> pyvalue" where
  "eval_objective_list_by_steps fmt ind objective_list n_steps objective_function_weights
     final_score_strategy thresholds verbose objective_kwargs =
     steps_loop fmt ind objective_list (map sgn objective_function_weights) final_score_strategy
       thresholds verbose objective_kwargs [0..<nat n_steps] [] None None"

section \<open>\<^verbatim>\<open>parallel_eval_objective_list_by_steps\<close>\<close>

text \<open>
  \<^verbatim>\<open>
  delayed_values = [dask.delayed(eval_objective_list)(ind, objective_list=objective_list,
                        n_steps=n_steps, objective_function_weights=objective_function_weights,
                        final_score_strategy=final_score_strategy, thresholds=thresholds,
                        verbose=verbose, timeout=timeout, **objective_kwargs)
                    for ind in individual_list]
  offspring_scores = dask.compute(*delayed_values, num_workers=n_jobs)
  return offspring_scores
  \<close>
  The function called is \<^verbatim>\<open>eval_objective_list\<close>: it takes \<^verbatim>\<open>objective_list\<close> and
  \<^verbatim>\<open>verbose\<close> as its own parameters, and every other keyword goes into its
  \<^verbatim>\<open>**objective_kwargs\<close>.
\<close>

definition thresholds_kw :: "real list list option \<Rightarrow> kwval" where
  "thresholds_kw thresholds =
     (case thresholds of None \<Rightarrow> KNone | Some ths \<Rightarrow> KList (map (\<lambda>t. KList (map KNum t)) ths))"

definition parallel_eval_objective_list_by_steps ::
  "(real \<Rightarrow> string) \<Rightarrow> (nat \<Rightarrow> nat list) \<Rightarrow> 'ind list \<Rightarrow> 'ind objective list \<Rightarrow> real list \<Rightarrow>
   int \<Rightarrow> string \<Rightarrow> real list list option \<Rightarrow> nat \<Rightarrow> int \<Rightarrow> kwval \<Rightarrow> kwargs \<Rightarrow>
   exn + score list list" where
  "parallel_eval_objective_list_by_steps fmt schedule individual_list objective_list
     objective_function_weights n_steps final_score_strategy thresholds n_jobs verbose timeout
     objective_kwargs =
     (case collect
             (map (\<lambda>(i, ind).
                     dask_delayed (call_eval_objective_list fmt ind objective_list verbose) i
                       (objective_kwargs
                          (''n_steps'' \<mapsto> KNum (of_int n_steps),
                           ''objective_function_weights'' \<mapsto>
                              KList (map KNum objective_function_weights),
                           ''final_score_strategy'' \<mapsto> KStr final_score_strategy,
                           ''thresholds'' \<mapsto> thresholds_kw thresholds,
                           ''timeout'' \<mapsto> timeout)))
                  (enumerate 0 individual_list)) of
        Inl e \<Rightarrow> Inl e
      | Inr delayed_values \<Rightarrow> dask_compute n_jobs schedule delayed_values)"

section \<open>\<^verbatim>\<open>optimize_objective\<close>\<close>

text \<open>
  The body of the function:
  \<^verbatim>\<open>
  try:
      value = ind.optimize(objective, steps=steps)
      if not isinstance(value, Iterable):
          value = [value]
      return value
  except Exception as e:
      return [np.nan]
  \<close>
  as a function of what happens inside the \<^verbatim>\<open>try\<close> block: the call of the method
  returns a value or an exception is raised there. The result is a list, or the exception
  leaves the body.
\<close>

definition optimize_objective_body :: "outcome \<Rightarrow> exn + pyvalue" where
  "optimize_objective_body out =
     (case out of
        Returns v \<Rightarrow> Inr (Array (as_row v))
      | Raises e \<Rightarrow> if isinstance_Exception e then Inr (Array [NaN]) else Inl e)"

text \<open>
  Modelled from the spec: \<^verbatim>\<open>stopit.threading_timeoutable(default)\<close> is a library
  decorator, not part of the module. The decorated function takes a keyword
  \<^verbatim>\<open>timeout\<close>. Without it (\<^verbatim>\<open>None\<close>, or 0) the function is called as it is. With it,
  a timer is started, and if the function is still running when the budget is over the
  library raises \<^verbatim>\<open>TimeoutException\<close> in the thread that runs the function, at
  whatever statement that thread has reached: \<open>landing\<close> says whether this is inside the
  function's \<^verbatim>\<open>try\<close> block, where the call of \<^verbatim>\<open>ind.optimize\<close> is, or outside it.
  Raised inside, the exception is the function's to handle; raised outside, it leaves the
  function, the decorator swallows it and returns its default value. \<open>func\<close> is the function as
  \<^const>\<open>optimize_objective_body\<close> gives it, and the run is that of the method it calls.
\<close>

datatype landing = InsideTry | OutsideTry

definition threading_timeoutable ::
  "pyvalue \<Rightarrow> (outcome \<Rightarrow> exn + pyvalue) \<Rightarrow> real option \<Rightarrow> landing \<Rightarrow> run \<Rightarrow> exn + pyvalue" where
  "threading_timeoutable default_value func timeout landing r =
     (case r of
        Run d out \<Rightarrow>
          if (case timeout of None \<Rightarrow> False | Some t \<Rightarrow> t \<noteq> 0 \<and> t < d) then
            (case landing of
               InsideTry \<Rightarrow> func (Raises TimeoutException)
             | OutsideTry \<Rightarrow> Inr default_value)
          else func out)"

text \<open>
  \<^verbatim>\<open>
  @threading_timeoutable(np.nan)
  def optimize_objective(ind, objective, steps=5, verbose=0):
  \<close>
  \<open>optimize\<close> is the individual's method: how long it runs and what it returns or
  raises. Its changes to the individual and the text printed under \<^verbatim>\<open>verbose\<close> do not
  reach the result and are left out.
\<close>

definition optimize_objective ::
  "('ind \<Rightarrow> 'obj \<Rightarrow> int \<Rightarrow> run) \<Rightarrow> 'ind \<Rightarrow> 'obj \<Rightarrow> int \<Rightarrow> int \<Rightarrow> real option \<Rightarrow> landing \<Rightarrow>
   exn + pyvalue" where
  "optimize_objective optimize ind objective steps verbose timeout landing =
     threading_timeoutable (Item NaN) optimize_objective_body timeout landing
       (optimize ind objective steps)"

section \<open>The sequential evaluation of a population\<close>

text \<open>
  The evaluation the dispatcher is compared with, in the words of its contract: every
  individual is evaluated on its own, one after the other in the order of the input, row
  \<open>i\<close> of the result belongs to individual \<open>i\<close>, and with an expected width the rows
  are repaired one by one.
\<close>

definition sequential_eval_objective_list ::
  "(real \<Rightarrow> string) \<Rightarrow> 'ind list \<Rightarrow> 'ind objective list \<Rightarrow> int \<Rightarrow> kwval \<Rightarrow> int option \<Rightarrow> kwargs \<Rightarrow>
   exn + score list list" where
  "sequential_eval_objective_list fmt individual_list objective_list verbose timeout
     n_expected_columns objective_kwargs =
     (case collect (map (\<lambda>ind. eval_objective_list fmt ind objective_list verbose
                                  (objective_kwargs(''timeout'' \<mapsto> timeout)))
                        individual_list) of
        Inl e \<Rightarrow> Inl e
      | Inr rows \<Rightarrow>
          (case n_expected_columns of
             None \<Rightarrow> Inr rows
           | Some n \<Rightarrow> Inr (map (repaired_row n) rows)))"

section \<open>Shapes of \<^verbatim>\<open>final_scores\<close>\<close>

text \<open>\<^verbatim>\<open>final_scores\<close> is unassigned or a single cell; unassigned or a single string.\<close>

fun one_cell :: "pyvalue option \<Rightarrow> bool" where
  "one_cell None = True"
| "one_cell (Some (Item c)) = True"
| "one_cell (Some (Array xs)) = False"

fun string_cell :: "pyvalue option \<Rightarrow> bool" where
  "string_cell None = True"
| "string_cell (Some (Item (Str s))) = True"
| "string_cell _ = False"

section \<open>Example inputs\<close>

text \<open>
  Individuals are natural numbers here. The objective functions: one that calls
  \<^verbatim>\<open>sys.exit()\<close>, one that lets a \<^verbatim>\<open>FunctionTimedOut\<close> of its own escape, one that
  raises an ordinary exception after a second, one that returns 5 after ten seconds, one
  that needs the keyword \<^verbatim>\<open>step\<close> and returns two scores that grow with it, one that
  returns 1 whatever the keywords, and one that raises an ordinary exception on
  individual 7 and calls \<^verbatim>\<open>sys.exit()\<close> on individual 9.
\<close>

definition exiting_objective :: "nat objective" where
  "exiting_objective ind kw = Run 0 (Raises SystemExit)"

definition self_timing_objective :: "nat objective" where
  "self_timing_objective ind kw = Run 0 (Raises FunctionTimedOut)"

definition raising_objective :: "nat objective" where
  "raising_objective ind kw = Run 1 (Raises (OtherException ''boom''))"

definition slow_objective :: "nat objective" where
  "slow_objective ind kw = Run 10 (Returns (Scalar 5))"

definition stepwise_objective :: "nat objective" where
  "stepwise_objective ind kw =
     (case kw ''step'' of
        Some (KNum s) \<Rightarrow> Run 0 (Returns (Vector [1 + 4 * s, 3 + 4 * s]))
      | _ \<Rightarrow> Run 0 (Raises TypeError))"

definition constant_objective :: "nat objective" where
  "constant_objective ind kw = Run 0 (Returns (Scalar 1))"

definition picky_objective :: "nat objective" where
  "picky_objective ind kw =
     (if ind = 7 then Run 0 (Raises (OtherException ''bad individual''))
      else if ind = 9 then Run 0 (Raises SystemExit)
      else Run 0 (Returns (Vector [real ind, 2])))"

text \<open>
  Three \<^verbatim>\<open>optimize\<close> methods: one interrupted from the keyboard after a second, one
  that raises after a second, one that returns 5 after ten seconds.
\<close>

definition interrupted_optimize :: "nat \<Rightarrow> unit \<Rightarrow> int \<Rightarrow> run" where
  "interrupted_optimize ind objective steps = Run 1 (Raises KeyboardInterrupt)"

definition failing_optimize :: "nat \<Rightarrow> unit \<Rightarrow> int \<Rightarrow> run" where
  "failing_optimize ind objective steps = Run 1 (Raises ValueError)"

definition slow_optimize :: "nat \<Rightarrow> unit \<Rightarrow> int \<Rightarrow> run" where
  "slow_optimize ind objective steps = Run 10 (Returns (Scalar 5))"

text \<open>
  Completion orders: of two tasks, in order whatever the pool; of three tasks, in order
  on one worker and with task 2 first on any other pool.
\<close>

definition two_in_order :: "nat \<Rightarrow> nat list" where
  "two_in_order num_workers = [0, 1]"

definition example_schedule :: "nat \<Rightarrow> nat list" where
  "example_schedule num_workers = (if num_workers = 1 then [0, 1, 2] else [2, 0, 1])"

text \<open>A rendering of numbers for the examples; none of them renders a number.\<close>

definition example_fmt :: "real \<Rightarrow> string" where
  "example_fmt x = ''0.0''"

section \<open>Properties of \<^verbatim>\<open>process_scores\<close>\<close>

lemma length_process_scores_body [simp]:
  "length (process_scores_body n scores i) = length scores"
  by (simp add: process_scores_body_def)

lemma process_scores_prefix:
  "k \<le> length scores \<Longrightarrow>
   foldl (process_scores_body n) scores [0..<k] =
   map (repaired_row n) (take k scores) @ drop k scores"
proof (induction k)
  case 0
  show ?case by simp
next
  case (Suc k)
  then have k: "k < length scores" by simp
  let ?done = "map (repaired_row n) (take k scores)"
  have len: "length ?done = k" using k by simp
  have split: "drop k scores = scores ! k # drop (Suc k) scores"
    using k by (simp add: Cons_nth_drop_Suc)
  have at_k: "(?done @ drop k scores) ! k = scores ! k"
    using len split by (simp add: nth_append)
  have upd: "(?done @ drop k scores)[k := r] = ?done @ r # drop (Suc k) scores" for r
    using len split by (simp add: list_update_append)
  have step: "process_scores_body n (?done @ drop k scores) k =
              ?done @ repaired_row n (scores ! k) # drop (Suc k) scores"
    unfolding process_scores_body_def repaired_row_def at_k upd
    using split by simp
  have "foldl (process_scores_body n) scores [0..<Suc k] =
        process_scores_body n (?done @ drop k scores) k"
    using Suc.IH k by simp
  also have "\<dots> = ?done @ repaired_row n (scores ! k) # drop (Suc k) scores"
    by (rule step)
  also have "\<dots> = map (repaired_row n) (take (Suc k) scores) @ drop (Suc k) scores"
    using k by (simp add: take_Suc_conv_app_nth)
  finally show ?case .
qed

lemma process_scores_map: "process_scores scores n = map (repaired_row n) scores"
  by (simp add: process_scores_def process_scores_prefix)

section \<open>Claims about \<^verbatim>\<open>process_scores\<close>\<close>

text \<open>
  C1. For every score matrix and every target width \<open>n\<close>, \<^verbatim>\<open>process_scores\<close> returns a
  matrix with as many rows, in which every row that was shorter than \<open>n\<close> is \<open>n\<close> copies
  of \<^verbatim>\<open>"TIMEOUT"\<close> if the original row held \<^verbatim>\<open>"TIMEOUT"\<close> anywhere and \<open>n\<close> copies of
  \<^verbatim>\<open>"INVALID"\<close> otherwise, and every row of length \<open>n\<close> or more is the original row:
  a row that is too long is never shortened.
\<close>

theorem process_scores_rows:
  "length (process_scores scores n) = length scores \<and>
   (\<forall>i < length scores.
      process_scores scores n ! i =
        (if int (length (scores ! i)) < n then
           (if TIMEOUT \<in> set (scores ! i) then replicate (nat n) TIMEOUT
            else replicate (nat n) INVALID)
         else scores ! i))"
proof -
  have rows: "process_scores scores n ! i = repaired_row n (scores ! i)"
    if "i < length scores" for i
    using that by (simp add: process_scores_map)
  have len: "length (process_scores scores n) = length scores"
    by (simp add: process_scores_map)
  show ?thesis
    unfolding repaired_row_def [symmetric] using rows len by blast
qed

text \<open>
  A matrix with a short row holding \<^verbatim>\<open>"TIMEOUT"\<close>, a short row without it, a row of
  the target width and a longer row, at width 3.
\<close>

theorem process_scores_rows_witness:
  "length (process_scores [[Num 1, TIMEOUT], [Num 1], [Num 1, Num 2, Num 3],
                           [Num 1, Num 2, Num 3, Num 4]] 3) = 4 \<and>
   process_scores [[Num 1, TIMEOUT], [Num 1], [Num 1, Num 2, Num 3],
                   [Num 1, Num 2, Num 3, Num 4]] 3 ! 0 = [TIMEOUT, TIMEOUT, TIMEOUT] \<and>
   process_scores [[Num 1, TIMEOUT], [Num 1], [Num 1, Num 2, Num 3],
                   [Num 1, Num 2, Num 3, Num 4]] 3 ! 1 = [INVALID, INVALID, INVALID] \<and>
   process_scores [[Num 1, TIMEOUT], [Num 1], [Num 1, Num 2, Num 3],
                   [Num 1, Num 2, Num 3, Num 4]] 3 ! 2 = [Num 1, Num 2, Num 3] \<and>
   process_scores [[Num 1, TIMEOUT], [Num 1], [Num 1, Num 2, Num 3],
                   [Num 1, Num 2, Num 3, Num 4]] 3 ! 3 = [Num 1, Num 2, Num 3, Num 4]"
  using process_scores_rows
    [of "[[Num 1, TIMEOUT], [Num 1], [Num 1, Num 2, Num 3], [Num 1, Num 2, Num 3, Num 4]]" 3]
  by (simp add: eval_nat_numeral All_less_Suc)

section \<open>Claims about \<^verbatim>\<open>objective_nan_wrapper\<close>\<close>

text \<open>
  C2, as stated: for every objective function that raises an exception when called,
  \<^verbatim>\<open>objective_nan_wrapper\<close> returns \<^verbatim>\<open>["INVALID"]\<close> and the exception never reaches the
  caller. It fails on two calls without a timeout: an objective that raises
  \<^verbatim>\<open>SystemExit\<close>, which \<^verbatim>\<open>except Exception\<close> does not match, so the exception leaves
  the wrapper; and an objective that raises \<^verbatim>\<open>FunctionTimedOut\<close> itself, which the
  first handler turns into \<^verbatim>\<open>["TIMEOUT"]\<close>.
\<close>

theorem objective_nan_wrapper_raise_counterexample:
  "exiting_objective 0 Map.empty = Run 0 (Raises SystemExit) \<and>
   objective_nan_wrapper 0 exiting_objective 0 KNone Map.empty = Inl SystemExit \<and>
   self_timing_objective 0 Map.empty = Run 0 (Raises FunctionTimedOut) \<and>
   objective_nan_wrapper 0 self_timing_objective 0 KNone Map.empty = Inr [TIMEOUT] \<and>
   Inr [TIMEOUT] \<noteq> (Inr [INVALID] :: exn + score list)"
  by (simp add: objective_nan_wrapper_def exiting_objective_def self_timing_objective_def)

text \<open>
  C2, as amended: when the call of the objective function raises an instance of
  \<^verbatim>\<open>Exception\<close>, and does so within the time budget if a timeout is set,
  \<^verbatim>\<open>objective_nan_wrapper\<close> returns \<^verbatim>\<open>["INVALID"]\<close> and the exception does not reach the
  caller. When it raises an exception that is not an instance of \<^verbatim>\<open>Exception\<close>: in a
  call without a timeout, \<^verbatim>\<open>FunctionTimedOut\<close> gives \<^verbatim>\<open>["TIMEOUT"]\<close> and any other
  (\<^verbatim>\<open>KeyboardInterrupt\<close>, \<^verbatim>\<open>SystemExit\<close>) reaches the caller; in a call with a
  timeout, raised within the budget, the exception is lost in \<^verbatim>\<open>func_timeout\<close>, which
  returns \<^verbatim>\<open>None\<close>, and the wrapper returns \<^verbatim>\<open>[None]\<close>.
\<close>

theorem objective_nan_wrapper_raise:
  assumes "objective_function individual objective_kwargs = Run d (Raises e)"
  shows "(isinstance_Exception e \<and> (\<forall>t. timeout = KNum t \<longrightarrow> d \<le> t) \<longrightarrow>
            objective_nan_wrapper individual objective_function verbose timeout objective_kwargs
              = Inr [INVALID]) \<and>
         (\<not> isinstance_Exception e \<and> e \<noteq> FunctionTimedOut \<and> timeout = KNone \<longrightarrow>
            objective_nan_wrapper individual objective_function verbose timeout objective_kwargs
              = Inl e) \<and>
         (e = FunctionTimedOut \<and> timeout = KNone \<longrightarrow>
            objective_nan_wrapper individual objective_function verbose timeout objective_kwargs
              = Inr [TIMEOUT]) \<and>
         (\<not> isinstance_Exception e \<and> (\<exists>t. timeout = KNum t \<and> d \<le> t) \<longrightarrow>
            objective_nan_wrapper individual objective_function verbose timeout objective_kwargs
              = Inr [PyNone])"
proof (intro conjI impI)
  assume h: "isinstance_Exception e \<and> (\<forall>t. timeout = KNum t \<longrightarrow> d \<le> t)"
  then have e: "e \<noteq> FunctionTimedOut" by auto
  show "objective_nan_wrapper individual objective_function verbose timeout objective_kwargs
          = Inr [INVALID]"
  proof (cases timeout)
    case KNone
    with assms h e show ?thesis by (simp add: objective_nan_wrapper_def)
  next
    case (KNum t)
    with h have "\<not> t < d" by simp
    with assms h e KNum show ?thesis by (simp add: objective_nan_wrapper_def)
  next
    case (KStr s)
    with assms show ?thesis by (simp add: objective_nan_wrapper_def)
  next
    case (KList l)
    with assms show ?thesis by (simp add: objective_nan_wrapper_def)
  qed
next
  assume "\<not> isinstance_Exception e \<and> e \<noteq> FunctionTimedOut \<and> timeout = KNone"
  with assms
  show "objective_nan_wrapper individual objective_function verbose timeout objective_kwargs
          = Inl e"
    by (simp add: objective_nan_wrapper_def)
next
  assume "e = FunctionTimedOut \<and> timeout = KNone"
  with assms
  show "objective_nan_wrapper individual objective_function verbose timeout objective_kwargs
          = Inr [TIMEOUT]"
    by (simp add: objective_nan_wrapper_def)
next
  assume h: "\<not> isinstance_Exception e \<and> (\<exists>t. timeout = KNum t \<and> d \<le> t)"
  then obtain t where t: "timeout = KNum t" "\<not> t < d" by auto
  with assms h
  show "objective_nan_wrapper individual objective_function verbose timeout objective_kwargs
          = Inr [PyNone]"
    by (simp add: objective_nan_wrapper_def)
qed

text \<open>
  An objective that raises after one second, without a timeout and with a budget of two
  seconds; the exiting objective and the one that raises \<^verbatim>\<open>FunctionTimedOut\<close>, each
  without a timeout and with a budget of two seconds.
\<close>

theorem objective_nan_wrapper_raise_witness:
  "objective_nan_wrapper 0 raising_objective 0 KNone Map.empty = Inr [INVALID] \<and>
   objective_nan_wrapper 0 raising_objective 0 (KNum 2) Map.empty = Inr [INVALID] \<and>
   objective_nan_wrapper 0 exiting_objective 0 KNone Map.empty = Inl SystemExit \<and>
   objective_nan_wrapper 0 self_timing_objective 0 KNone Map.empty = Inr [TIMEOUT] \<and>
   objective_nan_wrapper 0 exiting_objective 0 (KNum 2) Map.empty = Inr [PyNone] \<and>
   objective_nan_wrapper 0 self_timing_objective 0 (KNum 2) Map.empty = Inr [PyNone]"
  using objective_nan_wrapper_raise
          [of raising_objective 0 Map.empty 1 "OtherException ''boom''" KNone 0]
        objective_nan_wrapper_raise
          [of raising_objective 0 Map.empty 1 "OtherException ''boom''" "KNum 2" 0]
        objective_nan_wrapper_raise [of exiting_objective 0 Map.empty 0 SystemExit KNone 0]
        objective_nan_wrapper_raise
          [of self_timing_objective 0 Map.empty 0 FunctionTimedOut KNone 0]
        objective_nan_wrapper_raise [of exiting_objective 0 Map.empty 0 SystemExit "KNum 2" 0]
        objective_nan_wrapper_raise
          [of self_timing_objective 0 Map.empty 0 FunctionTimedOut "KNum 2" 0]
  by (simp add: raising_objective_def exiting_objective_def self_timing_objective_def)

text \<open>
  C3. When a timeout of \<open>t\<close> seconds is set and the call of the objective function takes
  longer than \<open>t\<close>, \<^verbatim>\<open>objective_nan_wrapper\<close> returns the one-element row
  \<^verbatim>\<open>["TIMEOUT"]\<close>, whatever the abandoned call would have returned or raised.
\<close>

theorem objective_nan_wrapper_timeout:
  assumes "objective_function individual objective_kwargs = Run d out" and "t < d"
  shows "objective_nan_wrapper individual objective_function verbose (KNum t) objective_kwargs
           = Inr [TIMEOUT]"
  using assms by (simp add: objective_nan_wrapper_def)

text \<open>An objective that needs ten seconds, under a budget of three.\<close>

theorem objective_nan_wrapper_timeout_witness:
  "slow_objective 0 Map.empty = Run 10 (Returns (Scalar 5)) \<and> (3::real) < 10 \<and>
   objective_nan_wrapper 0 slow_objective 0 (KNum 3) Map.empty = Inr [TIMEOUT]"
  using objective_nan_wrapper_timeout [of slow_objective 0 Map.empty 10 "Returns (Scalar 5)" 3 0]
  by (simp add: slow_objective_def)

section \<open>Claims about \<^verbatim>\<open>eval_objective_list_by_steps\<close>\<close>

text \<open>
  Whatever the inputs, a \<^verbatim>\<open>final_scores\<close> that is returned is a single cell: the
  reduction reads the vector of the current step (\<^verbatim>\<open>scores\<close>), never the history
  \<^verbatim>\<open>all_scores\<close>.
\<close>

lemma reduce_scores_one_cell:
  "reduce_scores strategy scores final_scores = Inr final_scores' \<Longrightarrow> one_cell final_scores \<Longrightarrow>
   one_cell final_scores'"
  by (auto simp: reduce_scores_def split: if_splits sum.splits)

lemma steps_loop_one_cell:
  "steps_loop fmt ind objective_list signs strategy thresholds verbose kw steps
     all_scores scores final_scores = Inr (s, f) \<Longrightarrow>
   one_cell final_scores \<Longrightarrow> \<exists>c. f = Item c"
proof (induction steps arbitrary: all_scores scores final_scores)
  case Nil
  then show ?case
    by (cases final_scores rule: one_cell.cases) (auto split: option.splits)
next
  case (Cons step rest)
  from Cons.prems(1) obtain scores' final_scores' where
    ev: "eval_step fmt ind objective_list verbose step kw = Inr scores'" and
    red: "reduce_scores strategy scores' final_scores = Inr final_scores'"
    by (auto split: sum.splits)
  have cell: "one_cell final_scores'"
    using reduce_scores_one_cell [OF red Cons.prems(2)] .
  show ?case
  proof (cases "f = the final_scores' \<and> final_scores' \<noteq> None")
    case True
    with cell show ?thesis by (cases final_scores' rule: one_cell.cases) auto
  next
    case False
    with Cons.prems(1) ev red
    have "steps_loop fmt ind objective_list signs strategy thresholds verbose kw rest
            (all_scores @ [scores']) (Some scores') final_scores' = Inr (s, f)"
      by (auto split: option.splits sum.splits if_splits)
    from Cons.IH [OF this cell] show ?thesis .
  qed
qed

lemma by_steps_final_scores_one_cell:
  "eval_objective_list_by_steps fmt ind objective_list n_steps objective_function_weights
     final_score_strategy thresholds verbose objective_kwargs = Inr (s, f) \<Longrightarrow>
   \<exists>c. f = Item c"
  unfolding eval_objective_list_by_steps_def
  by (erule steps_loop_one_cell) simp

text \<open>
  With thresholds, the comparison iterates over that single cell. A number cannot be
  iterated, so a call with thresholds only ever returns a string as \<^verbatim>\<open>final_scores\<close>:
  on numeric scores it raises.
\<close>

lemma early_stop_string_cell:
  "early_stop ths step final_scores signs = Inr b \<Longrightarrow> one_cell final_scores \<Longrightarrow>
   \<exists>s. final_scores = Some (Item (Str s))"
  by (cases final_scores rule: string_cell.cases)
     (auto simp: early_stop_def all_exceed_def split: if_splits)

lemma steps_loop_thresholds:
  "steps_loop fmt ind objective_list signs strategy (Some ths) verbose kw steps
     all_scores scores final_scores = Inr (s, f) \<Longrightarrow>
   one_cell final_scores \<Longrightarrow> string_cell final_scores \<Longrightarrow> \<exists>str. f = Item (Str str)"
proof (induction steps arbitrary: all_scores scores final_scores)
  case Nil
  then show ?case
    by (cases final_scores rule: string_cell.cases) (auto split: option.splits)
next
  case (Cons step rest)
  from Cons.prems(1) obtain scores' final_scores' b where
    ev: "eval_step fmt ind objective_list verbose step kw = Inr scores'" and
    red: "reduce_scores strategy scores' final_scores = Inr final_scores'" and
    stop: "early_stop ths step final_scores' signs = Inr b"
    by (auto split: sum.splits)
  have cell: "one_cell final_scores'"
    using reduce_scores_one_cell [OF red Cons.prems(2)] .
  from early_stop_string_cell [OF stop cell]
  obtain str where str: "final_scores' = Some (Item (Str str))" by blast
  show ?case
  proof (cases b)
    case True
    with Cons.prems(1) ev red stop str show ?thesis by auto
  next
    case False
    with Cons.prems(1) ev red stop
    have "steps_loop fmt ind objective_list signs strategy (Some ths) verbose kw rest
            (all_scores @ [scores']) (Some scores') final_scores' = Inr (s, f)"
      by simp
    from Cons.IH [OF this cell] str show ?thesis by simp
  qed
qed

lemma by_steps_thresholds_string_only:
  "eval_objective_list_by_steps fmt ind objective_list n_steps objective_function_weights
     final_score_strategy (Some ths) verbose objective_kwargs = Inr (s, f) \<Longrightarrow>
   \<exists>str. f = Item (Str str)"
  unfolding eval_objective_list_by_steps_def
  by (erule steps_loop_thresholds) simp_all

lemmas by_steps_eval =
  eval_objective_list_by_steps_def eval_step_def call_objective_nan_wrapper_def
  objective_nan_wrapper_def np_concatenate_def reduce_scores_def np_mean_def last_cell_def
  early_stop_def all_exceed_def stepwise_objective_def upt_rec

text \<open>
  C4. The claim: at each step the accumulated history of step vectors is reduced to
  \<^verbatim>\<open>final_scores\<close>, by the mean across the steps so far (\<^verbatim>\<open>mean\<close>) or as the whole
  vector of the latest step (\<^verbatim>\<open>last\<close>). The code, on an objective whose scores are
  \<open>[1, 3]\<close> at step 0 and \<open>[5, 7]\<close> at step 1, run for two steps: under \<^verbatim>\<open>mean\<close> it
  returns the single number 6, the mean of the cells of the last vector, where the mean
  across the steps is \<open>[3, 5]\<close>; under \<^verbatim>\<open>last\<close> it returns the single number 7, the
  last cell, where the latest vector is \<open>[5, 7]\<close>. The first component is the last step's
  vector alone.
\<close>

theorem by_steps_final_scores_is_one_cell:
  "eval_objective_list_by_steps fmt 0 [stepwise_objective] 2 [1, 1] ''mean'' None 0 Map.empty
     = Inr ([Num 5, Num 7], Item (Num 6)) \<and>
   eval_objective_list_by_steps fmt 0 [stepwise_objective] 2 [1, 1] ''last'' None 0 Map.empty
     = Inr ([Num 5, Num 7], Item (Num 7))"
  by (simp add: by_steps_eval)

text \<open>
  C5. The claim: with thresholds, the function returns at the first step at which every
  position passes its sign-adjusted comparison. The code, on the same objective with five
  steps and thresholds \<open>[0, 0]\<close> at every step, which the scores \<open>[1, 3]\<close> of step 0
  exceed at both positions: the comparison at step 0 iterates over the single number in
  \<^verbatim>\<open>final_scores\<close> and the call raises \<^verbatim>\<open>TypeError\<close>, under either strategy.
\<close>

theorem by_steps_thresholds_type_error:
  "eval_objective_list_by_steps fmt 0 [stepwise_objective] 5 [1, 1] ''mean''
     (Some [[0, 0], [0, 0], [0, 0], [0, 0], [0, 0]]) 0 Map.empty = Inl TypeError \<and>
   eval_objective_list_by_steps fmt 0 [stepwise_objective] 5 [1, 1] ''last''
     (Some [[0, 0], [0, 0], [0, 0], [0, 0], [0, 0]]) 0 Map.empty = Inl TypeError"
  by (simp add: by_steps_eval)

text \<open>
  C10. With \<open>n_steps \<le> 0\<close> the body of the loop never runs, the final
  \<^verbatim>\<open>return scores, final_scores\<close> reads two locals that were never assigned, and the
  call fails with \<^verbatim>\<open>UnboundLocalError\<close>: it does not return an empty history. The
  function needs \<open>n_steps \<ge> 1\<close>.
\<close>

theorem by_steps_no_step:
  "n_steps \<le> 0 \<Longrightarrow>
   eval_objective_list_by_steps fmt ind objective_list n_steps objective_function_weights
     final_score_strategy thresholds verbose objective_kwargs = Inl UnboundLocalError"
  by (simp add: eval_objective_list_by_steps_def)

text \<open>The call with \<open>n_steps = 0\<close>.\<close>

theorem by_steps_no_step_witness:
  "(0::int) \<le> 0 \<and>
   eval_objective_list_by_steps example_fmt (0::nat) [slow_objective] 0 [1] ''mean'' None 0
     Map.empty = Inl UnboundLocalError"
  using by_steps_no_step
    [of 0 example_fmt "0::nat" "[slow_objective]" "[1]" "''mean''" None 0 Map.empty]
  by simp

section \<open>Claims about \<^verbatim>\<open>parallel_eval_objective_list_by_steps\<close>\<close>

lemmas parallel_by_steps_eval =
  parallel_eval_objective_list_by_steps_def dask_delayed_def delayed_name_def
  delayed_kwargs_def call_eval_objective_list_def eval_objective_list_def
  call_objective_nan_wrapper_def objective_nan_wrapper_def np_concatenate_def
  dask_compute_def merge_tasks_def List.map_filter_def thresholds_kw_def
  stepwise_objective_def constant_objective_def two_in_order_def

text \<open>
  C6. The claim: the dispatcher runs the staged evaluator
  \<^verbatim>\<open>eval_objective_list_by_steps\<close> on every individual and returns one pair
  \<open>(all_step_scores, final_scores)\<close> per individual. The code calls
  \<^verbatim>\<open>eval_objective_list\<close>: on two individuals, two steps and an objective that returns
  1 it gives one plain score row per individual, from a single evaluation; an objective
  that needs the keyword \<^verbatim>\<open>step\<close> is never given it, and every row is \<^verbatim>\<open>["INVALID"]\<close>.
\<close>

theorem parallel_by_steps_runs_plain_evaluation:
  "parallel_eval_objective_list_by_steps fmt two_in_order [0, 1] [constant_objective] [1] 2
     ''mean'' None 1 0 KNone Map.empty = Inr [[Num 1], [Num 1]] \<and>
   parallel_eval_objective_list_by_steps fmt two_in_order [0, 1] [stepwise_objective] [1, 1] 2
     ''mean'' None 1 0 KNone Map.empty = Inr [[INVALID], [INVALID]]"
  by (simp add: parallel_by_steps_eval)

section \<open>Claims about \<^verbatim>\<open>parallel_eval_objective_list\<close>\<close>

text \<open>A comprehension returns exactly when every call returns, with the results in order.\<close>

lemma collect_Inr_iff: "(collect tasks = Inr vs) = (tasks = map Inr vs)"
proof (induction tasks arbitrary: vs)
  case Nil
  show ?case by auto
next
  case (Cons t tasks)
  show ?case
  proof (cases t)
    case (Inl e)
    then show ?thesis by auto
  next
    case (Inr v)
    show ?thesis
    proof (cases "collect tasks")
      case (Inl e)
      then have "tasks \<noteq> map Inr ws" for ws using Cons.IH [of ws] by simp
      with Inl Inr show ?thesis by (cases vs) auto
    next
      case tasks: (Inr ws)
      then have "tasks = map Inr ws" using Cons.IH [of ws] by simp
      with tasks Inr show ?thesis by (cases vs) (auto simp: inj_map_eq_map)
    qed
  qed
qed

text \<open>
  When no task raises, every task named in the completion order has its result in its own
  slot; when a task named there raises, the run raises.
\<close>

lemma dask_run_all_ok:
  "length slots = length vs \<Longrightarrow>
   dask_run order (map Inr vs) slots =
     Inr (map (\<lambda>k. if k \<in> set order then Some (vs ! k) else slots ! k) [0..<length vs])"
proof (induction order arbitrary: slots)
  case Nil
  then have "map ((!) slots) [0..<length vs] = slots" by (metis map_nth)
  then show ?case by simp
next
  case (Cons i order)
  show ?case
  proof (cases "i < length vs")
    case True
    have "dask_run (i # order) (map Inr vs) slots =
          dask_run order (map Inr vs) (slots[i := Some (vs ! i)])"
      using True by simp
    also have "\<dots> = Inr (map (\<lambda>k. if k \<in> set order then Some (vs ! k)
                                   else slots[i := Some (vs ! i)] ! k) [0..<length vs])"
      using Cons.prems by (intro Cons.IH) simp
    also have "\<dots> = Inr (map (\<lambda>k. if k \<in> set (i # order) then Some (vs ! k) else slots ! k)
                            [0..<length vs])"
      using Cons.prems by (auto simp: nth_list_update)
    finally show ?thesis .
  next
    case False
    have "dask_run (i # order) (map Inr vs) slots = dask_run order (map Inr vs) slots"
      using False by simp
    also have "\<dots> = Inr (map (\<lambda>k. if k \<in> set order then Some (vs ! k) else slots ! k)
                            [0..<length vs])"
      using Cons.prems by (intro Cons.IH)
    also have "\<dots> = Inr (map (\<lambda>k. if k \<in> set (i # order) then Some (vs ! k) else slots ! k)
                            [0..<length vs])"
      using False by auto
    finally show ?thesis .
  qed
qed

lemma dask_run_failure:
  "i \<in> set order \<Longrightarrow> i < length tasks \<Longrightarrow> tasks ! i = Inl e \<Longrightarrow>
   \<exists>e'. dask_run order tasks slots = Inl e'"
proof (induction order arbitrary: slots)
  case Nil
  then show ?case by simp
next
  case (Cons k order)
  show ?case
  proof (cases "k = i")
    case True
    with Cons.prems show ?thesis by simp
  next
    case False
    with Cons.prems have "i \<in> set order" by simp
    from Cons.IH [OF this Cons.prems(2,3)] show ?thesis
      by (auto split: sum.splits)
  qed
qed

lemma map_filter_id_Some: "List.map_filter id (map Some vs) = vs"
  by (induction vs) (simp_all add: List.map_filter_simps)


text \<open>Delayed values with names of their own are the tasks that run.\<close>

lemma merge_tasks_distinct:
  assumes "distinct (map fst delayed_values)"
  shows "merge_tasks delayed_values = map snd delayed_values"
proof -
  have "(case map_of delayed_values k of Some t' \<Rightarrow> t' | None \<Rightarrow> t) = t"
    if "(k, t) \<in> set delayed_values" for k t
    using assms that by simp
  then show ?thesis
    unfolding merge_tasks_def by (intro map_cong) auto
qed

lemma length_merge_tasks [simp]: "length (merge_tasks delayed_values) = length delayed_values"
  by (simp add: merge_tasks_def)

text \<open>
  When the completion order names every task, the run returns exactly when every task
  returns, and then with the results by position.
\<close>

lemma dask_run_Inr_iff:
  assumes "{0..<length tasks} \<subseteq> set order"
  shows "(\<exists>slots. dask_run order tasks (replicate (length tasks) None) = Inr slots \<and>
                  List.map_filter id slots = vs) = (tasks = map Inr vs)"
proof
  assume tasks: "tasks = map Inr vs"
  have "map (\<lambda>k. if k \<in> set order then Some (vs ! k) else replicate (length vs) None ! k)
            [0..<length vs] = map (\<lambda>k. Some (vs ! k)) [0..<length vs]"
    using assms tasks by (intro map_cong) auto
  also have "\<dots> = map Some vs"
    by (simp add: map_nth flip: map_map [unfolded comp_def])
  finally show "\<exists>slots. dask_run order tasks (replicate (length tasks) None) = Inr slots \<and>
                        List.map_filter id slots = vs"
    using tasks by (simp add: dask_run_all_ok map_filter_id_Some)
next
  assume "\<exists>slots. dask_run order tasks (replicate (length tasks) None) = Inr slots \<and>
                  List.map_filter id slots = vs"
  then obtain slots where
    ok: "dask_run order tasks (replicate (length tasks) None) = Inr slots" and
    vs: "List.map_filter id slots = vs" by blast
  have no_failure: "\<exists>v. tasks ! i = Inr v" if "i < length tasks" for i
  proof (cases "tasks ! i")
    case (Inl e)
    from that assms have "i \<in> set order" by auto
    from dask_run_failure [OF this that Inl]
    obtain e' where "dask_run order tasks (replicate (length tasks) None) = Inl e'" by blast
    with ok show ?thesis by simp
  next
    case (Inr v)
    then show ?thesis by blast
  qed
  define ws where "ws = map projr tasks"
  have "tasks ! i = Inr (projr (tasks ! i))" if "i < length tasks" for i
    using no_failure [OF that] by auto
  then have tasks: "tasks = map Inr ws"
    unfolding ws_def by (intro nth_equalityI) simp_all
  have "map (\<lambda>k. if k \<in> set order then Some (ws ! k) else replicate (length ws) None ! k)
            [0..<length ws] = map (\<lambda>k. Some (ws ! k)) [0..<length ws]"
    using assms tasks by (intro map_cong) auto
  also have "\<dots> = map Some ws"
    by (simp add: map_nth flip: map_map [unfolded comp_def])
  finally have "dask_run order tasks (replicate (length tasks) None) = Inr (map Some ws)"
    using tasks by (simp add: dask_run_all_ok)
  with ok have "slots = map Some ws" by simp
  with vs have "ws = vs" by (simp add: map_filter_id_Some)
  with tasks show "tasks = map Inr vs" by simp
qed

lemma dask_compute_Inr_iff:
  assumes "{0..<length delayed_values} \<subseteq> set (schedule num_workers)"
  shows "(dask_compute num_workers schedule delayed_values = Inr vs) =
         (merge_tasks delayed_values = map Inr vs)"
proof -
  have cover: "{0..<length (merge_tasks delayed_values)} \<subseteq> set (schedule num_workers)"
    using assms by simp
  show ?thesis
    unfolding dask_run_Inr_iff [OF cover, symmetric]
    by (auto simp: dask_compute_def Let_def split: sum.splits)
qed

text \<open>
  Without the keys \<^verbatim>\<open>dask_key_name\<close> and \<^verbatim>\<open>pure\<close> every delayed value has a name of
  its own and its task gets the keywords as they are.
\<close>

lemma delayed_values_plain:
  assumes "kwargs ''dask_key_name'' = None" and "kwargs ''pure'' = None"
  shows "collect (map (\<lambda>(i, x). dask_delayed (f x) i kwargs) (enumerate n xs)) =
         Inr (map (\<lambda>(i, x). (Fresh i, f x kwargs)) (enumerate n xs))"
proof -
  have kw: "delayed_kwargs kwargs = kwargs"
    using assms by (auto simp: delayed_kwargs_def)
  have "dask_delayed (f x) i kwargs = Inr (Fresh i, f x kwargs)" for i x
    using assms by (simp add: dask_delayed_def delayed_name_def kw)
  then have "map (\<lambda>(i, x). dask_delayed (f x) i kwargs) (enumerate n xs) =
             map Inr (map (\<lambda>(i, x). (Fresh i, f x kwargs)) (enumerate n xs))"
    by (simp add: case_prod_unfold)
  then show ?thesis by (simp only: collect_Inr_iff)
qed

lemma merge_tasks_plain:
  "merge_tasks (map (\<lambda>(i, x). (Fresh i, g x)) (enumerate n xs)) = map g xs"
proof -
  have "map fst (map (\<lambda>(i, x). (Fresh i, g x)) (enumerate n xs)) =
        map Fresh (map fst (enumerate n xs))"
    by (induction xs arbitrary: n) simp_all
  then have "distinct (map fst (map (\<lambda>(i, x). (Fresh i, g x)) (enumerate n xs)))"
    by (simp add: distinct_map inj_on_def del: map_map)
  then have "merge_tasks (map (\<lambda>(i, x). (Fresh i, g x)) (enumerate n xs)) =
             map snd (map (\<lambda>(i, x). (Fresh i, g x)) (enumerate n xs))"
    by (rule merge_tasks_distinct)
  also have "\<dots> = map g xs"
    by (induction xs arbitrary: n) simp_all
  finally show ?thesis .
qed


text \<open>
  The dispatcher and the sequential evaluation return a matrix in the same case: every
  individual's evaluation returns, and the matrix is the rows, repaired when a width is
  expected.
\<close>

lemma parallel_eval_Inr_iff:
  assumes "objective_kwargs ''ind'' = None"
      and "objective_kwargs ''dask_key_name'' = None"
      and "objective_kwargs ''pure'' = None"
      and "{0..<length individual_list} \<subseteq> set (schedule n_jobs)"
  shows "(parallel_eval_objective_list fmt schedule individual_list objective_list n_jobs
            verbose timeout n_expected_columns objective_kwargs = Inr M) =
         (\<exists>rows. map (\<lambda>ind. eval_objective_list fmt ind objective_list verbose
                                 (objective_kwargs(''timeout'' \<mapsto> timeout))) individual_list
                    = map Inr rows \<and>
                  M = (case n_expected_columns of
                         None \<Rightarrow> rows | Some n \<Rightarrow> map (repaired_row n) rows))"
proof -
  let ?kw = "objective_kwargs(''timeout'' \<mapsto> timeout)"
  let ?ev = "\<lambda>ind. eval_objective_list fmt ind objective_list verbose ?kw"
  let ?call = "\<lambda>ind. call_eval_objective_list fmt ind objective_list verbose"
  let ?dvs = "map (\<lambda>(i, ind). (Fresh i, ?call ind ?kw)) (enumerate 0 individual_list)"
  have kw: "?kw ''dask_key_name'' = None" "?kw ''pure'' = None" "?kw ''ind'' = None"
    using assms by simp_all
  have dvs: "collect (map (\<lambda>(i, ind). dask_delayed (?call ind) i ?kw)
                          (enumerate 0 individual_list)) = Inr ?dvs"
    using kw(1,2) by (rule delayed_values_plain)
  have "?call ind ?kw = ?ev ind" for ind
    using kw(3) by (simp add: call_eval_objective_list_def)
  then have tasks: "merge_tasks ?dvs = map ?ev individual_list"
    by (simp add: merge_tasks_plain)
  have cover: "{0..<length ?dvs} \<subseteq> set (schedule n_jobs)" using assms(4) by simp
  show ?thesis
  proof (cases "dask_compute n_jobs schedule ?dvs")
    case (Inl e)
    then have "map ?ev individual_list \<noteq> map Inr rows" for rows
      using dask_compute_Inr_iff
              [where delayed_values = ?dvs and schedule = schedule and num_workers = n_jobs
                 and vs = rows] cover tasks
      by simp
    with Inl dvs show ?thesis by (simp add: parallel_eval_objective_list_def)
  next
    case (Inr vs)
    then have "map ?ev individual_list = map Inr vs"
      using dask_compute_Inr_iff
              [where delayed_values = ?dvs and schedule = schedule and num_workers = n_jobs
                 and vs = vs] cover tasks
      by simp
    then have "(map ?ev individual_list = map Inr rows) = (rows = vs)" for rows
      by (auto simp: inj_map_eq_map)
    with Inr dvs show ?thesis
      by (cases n_expected_columns)
         (auto simp: parallel_eval_objective_list_def process_scores_map)
  qed
qed

lemma sequential_eval_Inr_iff:
  "(sequential_eval_objective_list fmt individual_list objective_list verbose
      timeout n_expected_columns objective_kwargs = Inr M) =
   (\<exists>rows. map (\<lambda>ind. eval_objective_list fmt ind objective_list verbose
                           (objective_kwargs(''timeout'' \<mapsto> timeout))) individual_list
              = map Inr rows \<and>
            M = (case n_expected_columns of
                   None \<Rightarrow> rows | Some n \<Rightarrow> map (repaired_row n) rows))"
proof -
  let ?tasks = "map (\<lambda>ind. eval_objective_list fmt ind objective_list verbose
                              (objective_kwargs(''timeout'' \<mapsto> timeout))) individual_list"
  show ?thesis
  proof (cases "collect ?tasks")
    case (Inl e)
    then have "?tasks \<noteq> map Inr rows" for rows
      using collect_Inr_iff [of ?tasks rows] by simp
    with Inl show ?thesis by (simp add: sequential_eval_objective_list_def)
  next
    case (Inr vs)
    then have "?tasks = map Inr vs"
      using collect_Inr_iff [of ?tasks vs] by simp
    then have "(?tasks = map Inr rows) = (rows = vs)" for rows
      by (auto simp: inj_map_eq_map)
    with Inr show ?thesis
      by (cases n_expected_columns)
         (auto simp: sequential_eval_objective_list_def)
  qed
qed

lemmas parallel_eval =
  parallel_eval_objective_list_def dask_delayed_def delayed_name_def delayed_kwargs_def
  call_eval_objective_list_def eval_objective_list_def call_objective_nan_wrapper_def
  objective_nan_wrapper_def np_concatenate_def dask_compute_def merge_tasks_def
  List.map_filter_def process_scores_def process_scores_body_def picky_objective_def
  example_schedule_def upt_rec

text \<open>
  C7, as stated: making the individual at position \<open>j\<close> fail changes only row \<open>j\<close> of
  the matrix. It fails for a failure that the wrapper does not absorb: with an objective
  that calls \<^verbatim>\<open>sys.exit()\<close> on individual 9, the population \<open>[1, 2, 3]\<close> gets its
  matrix, and with individual 9 at position 1 the \<^verbatim>\<open>SystemExit\<close> leaves the wrapper,
  the evaluation of the individual and \<^verbatim>\<open>dask.compute\<close>: the call raises and returns
  no row at all, with one job and with four.
\<close>

theorem parallel_eval_objective_list_escape_counterexample:
  "parallel_eval_objective_list example_fmt example_schedule [1, 2, 3] [picky_objective] 1 0
     KNone (Some 2) Map.empty = Inr [[Num 1, Num 2], [Num 2, Num 2], [Num 3, Num 2]] \<and>
   parallel_eval_objective_list example_fmt example_schedule [1, 9, 3] [picky_objective] 1 0
     KNone (Some 2) Map.empty = Inl SystemExit \<and>
   parallel_eval_objective_list example_fmt example_schedule [1, 9, 3] [picky_objective] 4 0
     KNone (Some 2) Map.empty = Inl SystemExit"
  by (simp add: parallel_eval)

text \<open>
  C7, as amended. The extra keyword arguments do not use the names \<^verbatim>\<open>ind\<close>,
  \<^verbatim>\<open>dask_key_name\<close> and \<^verbatim>\<open>pure\<close>, and whatever the pool size the completion order
  names every task. Then the matrix \<^verbatim>\<open>parallel_eval_objective_list\<close> returns with
  \<open>n_jobs = 1\<close> is the matrix it returns with \<open>n_jobs = 4\<close>; for every \<open>n_jobs\<close> it is the
  matrix of the sequential evaluation of the individuals in input order; replacing the
  individual at position \<open>j\<close> by one whose own evaluation returns a row \<open>r\<close> (a failure
  that the wrapper absorbs gives sentinel cells) changes row \<open>j\<close> of the matrix, to \<open>r\<close>
  repaired, and no other row; and replacing it by one whose own evaluation raises makes
  the whole call raise.
\<close>

theorem parallel_eval_objective_list_order:
  assumes "objective_kwargs ''ind'' = None"
      and "objective_kwargs ''dask_key_name'' = None"
      and "objective_kwargs ''pure'' = None"
      and sched: "\<And>k. set (schedule k) = {0..<length individual_list}"
  shows
   "((parallel_eval_objective_list fmt schedule individual_list objective_list 1 verbose timeout
        n_expected_columns objective_kwargs = Inr M) =
     (parallel_eval_objective_list fmt schedule individual_list objective_list 4 verbose timeout
        n_expected_columns objective_kwargs = Inr M)) \<and>
    ((parallel_eval_objective_list fmt schedule individual_list objective_list n_jobs verbose
        timeout n_expected_columns objective_kwargs = Inr M) =
     (sequential_eval_objective_list fmt individual_list objective_list verbose timeout
        n_expected_columns objective_kwargs = Inr M)) \<and>
    (parallel_eval_objective_list fmt schedule individual_list objective_list n_jobs verbose
        timeout n_expected_columns objective_kwargs = Inr M \<and>
     j < length individual_list \<and>
     eval_objective_list fmt x objective_list verbose (objective_kwargs(''timeout'' \<mapsto> timeout))
        = Inr r \<longrightarrow>
     parallel_eval_objective_list fmt schedule (individual_list[j := x]) objective_list n_jobs
        verbose timeout n_expected_columns objective_kwargs =
       Inr (M[j := (case n_expected_columns of None \<Rightarrow> r | Some n \<Rightarrow> repaired_row n r)])) \<and>
    (j < length individual_list \<and>
     eval_objective_list fmt x objective_list verbose (objective_kwargs(''timeout'' \<mapsto> timeout))
        = Inl e \<longrightarrow>
     (\<exists>e'. parallel_eval_objective_list fmt schedule (individual_list[j := x]) objective_list
              n_jobs verbose timeout n_expected_columns objective_kwargs = Inl e'))"
proof (intro conjI impI)
  let ?ev = "\<lambda>ind. eval_objective_list fmt ind objective_list verbose
                      (objective_kwargs(''timeout'' \<mapsto> timeout))"
  let ?norm = "\<lambda>rows. case n_expected_columns of
                         None \<Rightarrow> rows | Some n \<Rightarrow> map (repaired_row n) rows"
  have cover: "{0..<length individual_list} \<subseteq> set (schedule k)" for k
    using sched [of k] by simp
  have cover': "{0..<length (individual_list[j := x])} \<subseteq> set (schedule k)" for k
    using sched [of k] by simp
  note par = parallel_eval_Inr_iff [OF assms(1-3) cover]
  note par' = parallel_eval_Inr_iff [OF assms(1-3) cover']
  show "(parallel_eval_objective_list fmt schedule individual_list objective_list 1 verbose
           timeout n_expected_columns objective_kwargs = Inr M) =
        (parallel_eval_objective_list fmt schedule individual_list objective_list 4 verbose
           timeout n_expected_columns objective_kwargs = Inr M)"
    unfolding par ..
  show "(parallel_eval_objective_list fmt schedule individual_list objective_list n_jobs verbose
           timeout n_expected_columns objective_kwargs = Inr M) =
        (sequential_eval_objective_list fmt individual_list objective_list verbose timeout
           n_expected_columns objective_kwargs = Inr M)"
    unfolding par sequential_eval_Inr_iff ..
  have upd: "map ?ev (individual_list[j := x]) = (map ?ev individual_list)[j := ?ev x]"
    by (simp add: map_update)
  {
    assume h: "parallel_eval_objective_list fmt schedule individual_list objective_list n_jobs
                 verbose timeout n_expected_columns objective_kwargs = Inr M \<and>
               j < length individual_list \<and> ?ev x = Inr r"
    then obtain rows where rows: "map ?ev individual_list = map Inr rows" "M = ?norm rows"
      unfolding par by blast
    have tasks: "map ?ev (individual_list[j := x]) = map Inr (rows[j := r])"
      using rows(1) h by (simp add: upd map_update)
    have "?norm (rows[j := r]) =
          M[j := (case n_expected_columns of None \<Rightarrow> r | Some n \<Rightarrow> repaired_row n r)]"
      using rows(2) by (cases n_expected_columns) (simp_all add: map_update)
    with tasks
    show "parallel_eval_objective_list fmt schedule (individual_list[j := x]) objective_list
            n_jobs verbose timeout n_expected_columns objective_kwargs =
          Inr (M[j := (case n_expected_columns of None \<Rightarrow> r | Some n \<Rightarrow> repaired_row n r)])"
      unfolding par' by (intro exI [of _ "rows[j := r]"]) simp
  }
  {
    assume h: "j < length individual_list \<and> ?ev x = Inl e"
    have "map ?ev (individual_list[j := x]) \<noteq> map Inr rows" for rows
    proof
      assume eq: "map ?ev (individual_list[j := x]) = map Inr rows"
      then have len: "length rows = length individual_list"
        by (metis length_list_update length_map)
      have "map ?ev (individual_list[j := x]) ! j = Inl e"
        using h by simp
      moreover have "(map Inr rows :: (exn + score list) list) ! j = Inr (rows ! j)"
        using h len by simp
      ultimately show False using eq by simp
    qed
    then have "parallel_eval_objective_list fmt schedule (individual_list[j := x])
                 objective_list n_jobs verbose timeout n_expected_columns objective_kwargs
               \<noteq> Inr M'" for M'
      unfolding par' by blast
    then show "\<exists>e'. parallel_eval_objective_list fmt schedule (individual_list[j := x])
                       objective_list n_jobs verbose timeout n_expected_columns
                       objective_kwargs = Inl e'"
      by (cases "parallel_eval_objective_list fmt schedule (individual_list[j := x])
                   objective_list n_jobs verbose timeout n_expected_columns objective_kwargs")
         auto
  }
qed

text \<open>
  Three individuals, an objective that raises an ordinary exception on individual 7 and
  calls \<^verbatim>\<open>sys.exit()\<close> on individual 9, expected width 2: the same matrix on one
  worker, with the tasks finishing in order, and on four, with task 2 finishing first,
  the matrix of the sequential evaluation; with individual 7 at position 1, row 1 becomes
  the sentinel row and rows 0 and 2 stay; with individual 9 there, the call raises.
\<close>

theorem parallel_eval_objective_list_order_witness:
  "(\<forall>k. set (example_schedule k) = {0..<length [1::nat, 2, 3]}) \<and>
   parallel_eval_objective_list example_fmt example_schedule [1, 2, 3] [picky_objective] 1 0
      KNone (Some 2) Map.empty = Inr [[Num 1, Num 2], [Num 2, Num 2], [Num 3, Num 2]] \<and>
   parallel_eval_objective_list example_fmt example_schedule [1, 2, 3] [picky_objective] 4 0
      KNone (Some 2) Map.empty = Inr [[Num 1, Num 2], [Num 2, Num 2], [Num 3, Num 2]] \<and>
   sequential_eval_objective_list example_fmt [1, 2, 3] [picky_objective] 0 KNone
      (Some 2) Map.empty = Inr [[Num 1, Num 2], [Num 2, Num 2], [Num 3, Num 2]] \<and>
   eval_objective_list example_fmt 7 [picky_objective] 0 [''timeout'' \<mapsto> KNone]
      = Inr [INVALID] \<and>
   parallel_eval_objective_list example_fmt example_schedule [1, 7, 3] [picky_objective] 4 0
      KNone (Some 2) Map.empty = Inr [[Num 1, Num 2], [INVALID, INVALID], [Num 3, Num 2]] \<and>
   eval_objective_list example_fmt 9 [picky_objective] 0 [''timeout'' \<mapsto> KNone]
      = Inl SystemExit \<and>
   (\<exists>e'. parallel_eval_objective_list example_fmt example_schedule [1, 9, 3] [picky_objective]
            4 0 KNone (Some 2) Map.empty = Inl e')"
proof -
  have sched: "set (example_schedule k) = {0..<length [1::nat, 2, 3]}" for k
    by (auto simp: example_schedule_def atLeastLessThan_upt upt_rec)
  have names: "(Map.empty :: kwargs) ''ind'' = None" "(Map.empty :: kwargs) ''dask_key_name'' = None"
    "(Map.empty :: kwargs) ''pure'' = None"
    by simp_all
  have par: "parallel_eval_objective_list example_fmt example_schedule [1, 2, 3]
               [picky_objective] 1 0 KNone (Some 2) Map.empty
             = Inr [[Num 1, Num 2], [Num 2, Num 2], [Num 3, Num 2]]"
    by (simp add: parallel_eval)
  have bad: "eval_objective_list example_fmt 7 [picky_objective] 0 [''timeout'' \<mapsto> KNone]
               = Inr [INVALID]"
    by (simp add: parallel_eval)
  have worse: "eval_objective_list example_fmt 9 [picky_objective] 0 [''timeout'' \<mapsto> KNone]
               = Inl SystemExit"
    by (simp add: parallel_eval)
  note one = parallel_eval_objective_list_order [where schedule = example_schedule
      and individual_list = "[1, 2, 3]" and objective_kwargs = Map.empty
      and fmt = example_fmt and objective_list = "[picky_objective]" and verbose = 0
      and timeout = KNone and n_expected_columns = "Some 2"
      and M = "[[Num 1, Num 2], [Num 2, Num 2], [Num 3, Num 2]]", OF names sched]
  from one [where n_jobs = 1] have same: "parallel_eval_objective_list example_fmt example_schedule
      [1, 2, 3] [picky_objective] 4 0 KNone (Some 2) Map.empty
        = Inr [[Num 1, Num 2], [Num 2, Num 2], [Num 3, Num 2]]"
    using par by blast
  from one [where n_jobs = 1] have seq: "sequential_eval_objective_list example_fmt [1, 2, 3]
      [picky_objective] 0 KNone (Some 2) Map.empty
        = Inr [[Num 1, Num 2], [Num 2, Num 2], [Num 3, Num 2]]"
    using par by blast
  have j: "(1::nat) < length [1::nat, 2, 3]" by simp
  from one [where n_jobs = 4 and j = 1 and x = 7 and r = "[INVALID]"] same bad j
  have "parallel_eval_objective_list example_fmt example_schedule ([1, 2, 3][1 := 7])
          [picky_objective] 4 0 KNone (Some 2) Map.empty =
        Inr ([[Num 1, Num 2], [Num 2, Num 2], [Num 3, Num 2]]
               [1 := (case Some 2 of None \<Rightarrow> [INVALID] | Some n \<Rightarrow> repaired_row n [INVALID])])"
    by blast
  then have local: "parallel_eval_objective_list example_fmt example_schedule [1, 7, 3]
      [picky_objective] 4 0 KNone (Some 2) Map.empty
        = Inr [[Num 1, Num 2], [INVALID, INVALID], [Num 3, Num 2]]"
    by (simp add: repaired_row_def eval_nat_numeral)
  from one [where n_jobs = 4 and j = 1 and x = 9 and e = SystemExit] worse j
  have "\<exists>e'. parallel_eval_objective_list example_fmt example_schedule ([1, 2, 3][1 := 9])
          [picky_objective] 4 0 KNone (Some 2) Map.empty = Inl e'"
    by blast
  then have escape: "\<exists>e'. parallel_eval_objective_list example_fmt example_schedule [1, 9, 3]
      [picky_objective] 4 0 KNone (Some 2) Map.empty = Inl e'"
    by simp
  from sched par same seq bad local worse escape show ?thesis by blast
qed

section \<open>Claims about \<^verbatim>\<open>optimize_objective\<close>\<close>

text \<open>
  C8, as stated: \<^verbatim>\<open>optimize_objective\<close> never lets an exception raised by
  \<^verbatim>\<open>individual.optimize\<close> reach its caller. It fails on an \<^verbatim>\<open>optimize\<close> interrupted
  from the keyboard: \<^verbatim>\<open>KeyboardInterrupt\<close> is not an instance of \<^verbatim>\<open>Exception\<close>, the
  handler does not match, and the exception leaves the function.
\<close>

theorem optimize_objective_raise_counterexample:
  "interrupted_optimize 0 () 5 = Run 1 (Raises KeyboardInterrupt) \<and>
   optimize_objective interrupted_optimize 0 () 5 0 None InsideTry = Inl KeyboardInterrupt"
  by (simp add: optimize_objective_def threading_timeoutable_def optimize_objective_body_def
        interrupted_optimize_def)

text \<open>
  C8, as amended: \<^verbatim>\<open>optimize_objective\<close> signals every timeout with the numeric
  \<open>nan\<close>, in the list \<^verbatim>\<open>[nan]\<close> or bare, and never with the tags \<^verbatim>\<open>"TIMEOUT"\<close> and
  \<^verbatim>\<open>"INVALID"\<close>; when no timeout occurs and \<^verbatim>\<open>individual.optimize\<close> raises an
  instance of \<^verbatim>\<open>Exception\<close>, it returns \<^verbatim>\<open>[nan]\<close> and the exception does not reach
  the caller; when no timeout occurs and \<^verbatim>\<open>individual.optimize\<close> raises an exception
  that is not an instance of \<^verbatim>\<open>Exception\<close>, that exception reaches the caller. A
  timeout occurs when a non-zero budget is set and the method runs longer.
\<close>

theorem optimize_objective_failure:
  assumes "optimize ind objective steps = Run d out"
  shows "((\<exists>t. timeout = Some t \<and> t \<noteq> 0 \<and> t < d) \<longrightarrow>
            optimize_objective optimize ind objective steps verbose timeout landing
              = Inr (Array [NaN]) \<or>
            optimize_objective optimize ind objective steps verbose timeout landing
              = Inr (Item NaN)) \<and>
         (\<not> (\<exists>t. timeout = Some t \<and> t \<noteq> 0 \<and> t < d) \<and> out = Raises e \<and>
          isinstance_Exception e \<longrightarrow>
            optimize_objective optimize ind objective steps verbose timeout landing
              = Inr (Array [NaN])) \<and>
         (\<not> (\<exists>t. timeout = Some t \<and> t \<noteq> 0 \<and> t < d) \<and> out = Raises e \<and>
          \<not> isinstance_Exception e \<longrightarrow>
            optimize_objective optimize ind objective steps verbose timeout landing = Inl e)"
  using assms
  by (cases landing; cases timeout)
     (auto simp: optimize_objective_def threading_timeoutable_def optimize_objective_body_def)

text \<open>
  An \<^verbatim>\<open>optimize\<close> that raises \<^verbatim>\<open>ValueError\<close> after a second, without a timeout and
  under a budget of three seconds; the interrupted one under that budget; and one that
  needs ten seconds under that budget, with the signal landing inside and outside the
  \<^verbatim>\<open>try\<close> block.
\<close>

theorem optimize_objective_failure_witness:
  "optimize_objective failing_optimize 0 () 5 0 None InsideTry = Inr (Array [NaN]) \<and>
   optimize_objective failing_optimize 0 () 5 0 (Some 3) InsideTry = Inr (Array [NaN]) \<and>
   optimize_objective interrupted_optimize 0 () 5 0 (Some 3) InsideTry = Inl KeyboardInterrupt \<and>
   (optimize_objective slow_optimize 0 () 5 0 (Some 3) InsideTry = Inr (Array [NaN]) \<or>
    optimize_objective slow_optimize 0 () 5 0 (Some 3) InsideTry = Inr (Item NaN)) \<and>
   (optimize_objective slow_optimize 0 () 5 0 (Some 3) OutsideTry = Inr (Array [NaN]) \<or>
    optimize_objective slow_optimize 0 () 5 0 (Some 3) OutsideTry = Inr (Item NaN))"
  using optimize_objective_failure
          [of failing_optimize 0 "()" 5 1 "Raises ValueError" None 0 InsideTry ValueError]
        optimize_objective_failure
          [of failing_optimize 0 "()" 5 1 "Raises ValueError" "Some 3" 0 InsideTry ValueError]
        optimize_objective_failure
          [of interrupted_optimize 0 "()" 5 1 "Raises KeyboardInterrupt" "Some 3" 0 InsideTry
              KeyboardInterrupt]
        optimize_objective_failure
          [of slow_optimize 0 "()" 5 10 "Returns (Scalar 5)" "Some 3" 0 InsideTry]
        optimize_objective_failure
          [of slow_optimize 0 "()" 5 10 "Returns (Scalar 5)" "Some 3" 0 OutsideTry]
  by (simp add: failing_optimize_def interrupted_optimize_def slow_optimize_def)

text \<open>
  C9, as stated: an exception inside \<^verbatim>\<open>individual.optimize\<close> yields the list
  \<^verbatim>\<open>[nan]\<close> while a timeout yields the bare scalar \<open>nan\<close>. It fails for a timeout whose
  signal lands where the time is spent, inside \<^verbatim>\<open>individual.optimize\<close>: the
  \<^verbatim>\<open>TimeoutException\<close> is raised in the \<^verbatim>\<open>try\<close> block, \<^verbatim>\<open>except Exception\<close> handles
  it, and the call returns the list \<^verbatim>\<open>[nan]\<close>, the shape an exception gives.
\<close>

theorem optimize_objective_shape_counterexample:
  "slow_optimize 0 () 5 = Run 10 (Returns (Scalar 5)) \<and> (3::real) < 10 \<and>
   optimize_objective slow_optimize 0 () 5 0 (Some 3) InsideTry = Inr (Array [NaN]) \<and>
   optimize_objective failing_optimize 0 () 5 0 (Some 3) InsideTry = Inr (Array [NaN]) \<and>
   Inr (Array [NaN]) \<noteq> (Inr (Item NaN) :: exn + pyvalue)"
  by (simp add: optimize_objective_def threading_timeoutable_def optimize_objective_body_def
        slow_optimize_def failing_optimize_def)

text \<open>
  C9, as amended: when no timeout occurs, an instance of \<^verbatim>\<open>Exception\<close> raised inside
  \<^verbatim>\<open>individual.optimize\<close> yields the one-element list \<^verbatim>\<open>[nan]\<close>. A timeout yields the
  same list \<^verbatim>\<open>[nan]\<close> when its signal lands inside the \<^verbatim>\<open>try\<close> block, and the bare
  scalar \<open>nan\<close> of the decorator's default when the signal lands outside it. So the two
  failure modes can give results of different shapes, and a caller cannot rely on a
  sequence-shaped result on failure.
\<close>

theorem optimize_objective_shapes:
  assumes "optimize ind objective steps = Run d out"
  shows "(\<not> (\<exists>t. timeout = Some t \<and> t \<noteq> 0 \<and> t < d) \<and> out = Raises e \<and>
          isinstance_Exception e \<longrightarrow>
            optimize_objective optimize ind objective steps verbose timeout landing
              = Inr (Array [NaN])) \<and>
         ((\<exists>t. timeout = Some t \<and> t \<noteq> 0 \<and> t < d) \<longrightarrow>
            optimize_objective optimize ind objective steps verbose timeout InsideTry
              = Inr (Array [NaN]) \<and>
            optimize_objective optimize ind objective steps verbose timeout OutsideTry
              = Inr (Item NaN))"
  using assms
  by (cases timeout)
     (auto simp: optimize_objective_def threading_timeoutable_def optimize_objective_body_def)

text \<open>
  The \<^verbatim>\<open>optimize\<close> that raises after a second and the one that needs ten seconds,
  under a budget of three seconds.
\<close>

theorem optimize_objective_shapes_witness:
  "optimize_objective failing_optimize 0 () 5 0 (Some 3) OutsideTry = Inr (Array [NaN]) \<and>
   optimize_objective slow_optimize 0 () 5 0 (Some 3) InsideTry = Inr (Array [NaN]) \<and>
   optimize_objective slow_optimize 0 () 5 0 (Some 3) OutsideTry = Inr (Item NaN)"
  using optimize_objective_shapes
          [of failing_optimize 0 "()" 5 1 "Raises ValueError" "Some 3" ValueError 0 OutsideTry]
        optimize_objective_shapes
          [of slow_optimize 0 "()" 5 10 "Returns (Scalar 5)" "Some 3" _ 0]
  by (simp add: failing_optimize_def slow_optimize_def)

end
